theory Spec2Isabelle
  imports Complex_Main "HOL-Library.Multiset"
begin

section \<open>Video records and the score engine (src/analytics.py)\<close>

text \<open>
  A Python \<open>str\<close> is a sequence of code points and \<open>len\<close> counts them, so a
  text value is a list of code points. Dictionary keys and column names are the ASCII
  identifiers of the source and stay ordinary strings.
\<close>

type_synonym pystr = "nat list"

text \<open>
  \<open>video_data\<close> is a dictionary read only through \<open>.get(key, default)\<close>. Each key the
  analysis reads is a field; \<open>None\<close> says that the key is absent from the dictionary.
  Counts and the duration are Python integers (unbounded, possibly negative).
\<close>

record video_data =
  duration_s :: "int option"
  views :: "int option"
  likes :: "int option"
  comments :: "int option"
  title :: "pystr option"

definition dict_get :: "'a option \<Rightarrow> 'a \<Rightarrow> 'a" where
  "dict_get field dflt = (case field of None \<Rightarrow> dflt | Some v \<Rightarrow> v)"

text \<open>
  \<open>calculate_optimization_score(video_data, engagement_rate)\<close>, lines 82 to 122. The
  four \<open>if/elif\<close> chains are kept as separate steps on the running score, in the order
  of the source. The engagement rate is a Python number, here a real number. Comparing a
  float with the literal \<open>0.05\<close> and comparing it with the decimal 0.05 give the same
  answer, since no float lies between a decimal and the float nearest to it; so the
  thresholds are the decimals. A rate that is not a number fails every comparison, as a
  rate of 0.01 does.
\<close>

definition duration_step :: "int \<Rightarrow> int \<Rightarrow> int" where
  "duration_step duration score =
     (if duration < 120 then score - 10
      else if 480 \<le> duration \<and> duration \<le> 900 then score + 10
      else if duration > 1800 then score - 15
      else score)"

definition engagement_step :: "real \<Rightarrow> int \<Rightarrow> int" where
  "engagement_step engagement_rate score =
     (if engagement_rate > 0.05 then score + 15
      else if engagement_rate > 0.02 then score + 5
      else if engagement_rate < 0.005 then score - 20
      else score)"

definition title_step :: "pystr \<Rightarrow> int \<Rightarrow> int" where
  "title_step t score =
     (if length t > 60 then score - 5
      else if length t < 30 then score - 5
      else score)"

definition views_step :: "int \<Rightarrow> int \<Rightarrow> int" where
  "views_step v score =
     (if v > 100000 then score + 10
      else if v > 10000 then score + 5
      else if v < 1000 then score - 10
      else score)"

definition calculate_optimization_score :: "video_data \<Rightarrow> real \<Rightarrow> int" where
  "calculate_optimization_score video engagement_rate =
     (let score = 50;
          duration = dict_get (duration_s video) 0;
          v = dict_get (views video) 0;
          t = dict_get (title video) [];
          score = duration_step duration score;
          score = engagement_step engagement_rate score;
          score = title_step t score;
          score = views_step v score
      in max 0 (min 100 score))"

text \<open>
  \<open>analyze_single_video\<close>, lines 33 to 41: the derived engagement rate. Python's \<open>/\<close> on
  two integers is true division; the model keeps the exact quotient. Line 54 passes this
  rate to the score function.
\<close>

definition engagement_rate_of :: "video_data \<Rightarrow> real" where
  "engagement_rate_of video =
     (let v = dict_get (views video) 0;
          l = dict_get (likes video) 0;
          c = dict_get (comments video) 0
      in if v > 0 then real_of_int (l + c) / real_of_int (max v 1) else 0)"

definition analyzed_score :: "video_data \<Rightarrow> int" where
  "analyzed_score video = calculate_optimization_score video (engagement_rate_of video)"

subsection \<open>Action items\<close>

text \<open>
  The nine message literals of \<open>generate_action_items\<close> (lines 165 to 191), in the order
  in which they stand in the source. Each literal begins with a pictograph; the
  constructors name the messages:
  \<^item> \<open>High_Priority_Retention\<close>: "High Priority: Major optimization needed. Focus on
    improving retention in the first 30 seconds."
  \<^item> \<open>High_Priority_Title\<close>: "High Priority: Review your title and thumbnail for clarity
    and appeal."
  \<^item> \<open>Medium_Priority\<close>: "Medium Priority: Moderate optimization opportunities. Focus on
    engagement improvements."
  \<^item> \<open>Good_Optimized\<close>: "Good: Your video is well-optimized. Focus on maintaining current
    strategies."
  \<^item> \<open>Test_Longer_Format\<close>: "Test longer format content (8-15 minutes) to increase watch
    time potential."
  \<^item> \<open>Condensed_Version\<close>: "Consider creating a condensed version or adding chapter
    markers."
  \<^item> \<open>Interactive_Elements\<close>: "Add more interactive elements: questions, polls, or
    calls-to-action to boost engagement."
  \<^item> \<open>Monitor_Retention\<close>: "Monitor audience retention graphs in YouTube Analytics to
    identify drop-off points."
  \<^item> \<open>AB_Test_Thumbnails\<close>: "A/B test different thumbnails for future videos based on
    what works best."
\<close>

datatype action_item =
    High_Priority_Retention
  | High_Priority_Title
  | Medium_Priority
  | Good_Optimized
  | Test_Longer_Format
  | Condensed_Version
  | Interactive_Elements
  | Monitor_Retention
  | AB_Test_Thumbnails

text \<open>
  \<open>generate_action_items(video_data, optimization_score, suggestions)\<close>. Each
  \<open>append\<close> extends the list at its end. The function computes its own engagement rate
  (line 184) with the default 1 for a missing view count and no guard on the views. The
  third argument is not read.
\<close>

definition generate_action_items :: "video_data \<Rightarrow> int \<Rightarrow> pystr list \<Rightarrow> action_item list" where
  "generate_action_items video optimization_score suggestions =
     (let action_items = [];
          action_items =
            (if optimization_score < 30
               then (action_items @ [High_Priority_Retention]) @ [High_Priority_Title]
             else if optimization_score < 60 then action_items @ [Medium_Priority]
             else action_items @ [Good_Optimized]);
          duration = dict_get (duration_s video) 0;
          action_items =
            (if duration < 120 then action_items @ [Test_Longer_Format]
             else if duration > 1800 then action_items @ [Condensed_Version]
             else action_items);
          engagement_rate =
            real_of_int (dict_get (likes video) 0 + dict_get (comments video) 0)
              / real_of_int (max (dict_get (views video) 1) 1);
          action_items =
            (if engagement_rate < 0.02 then action_items @ [Interactive_Elements]
             else action_items);
          action_items = action_items @ [Monitor_Retention];
          action_items = action_items @ [AB_Test_Thumbnails]
      in action_items)"

text \<open>The items that depend on the duration or on the engagement rate.\<close>

definition conditional_items :: "action_item set" where
  "conditional_items = {Test_Longer_Format, Condensed_Version, Interactive_Elements}"

subsection \<open>The rule table of the specification\<close>

text \<open>
  The specification describes the score engine as a table of eleven rules, each a
  condition on one field with an adjustment, and the score as the base 50 plus every
  matched adjustment, clamped. \<open>spec_score\<close> follows those words; it is compared
  with the function of the source below.
\<close>

definition rule_table :: "((video_data \<Rightarrow> real \<Rightarrow> bool) \<times> int) list" where
  "rule_table =
    [(\<lambda>video rate. dict_get (duration_s video) 0 < 120, - 10),
     (\<lambda>video rate. 480 \<le> dict_get (duration_s video) 0 \<and> dict_get (duration_s video) 0 \<le> 900, 10),
     (\<lambda>video rate. dict_get (duration_s video) 0 > 1800, - 15),
     (\<lambda>video rate. rate > 0.05, 15),
     (\<lambda>video rate. rate > 0.02 \<and> \<not> rate > 0.05, 5),
     (\<lambda>video rate. rate < 0.005, - 20),
     (\<lambda>video rate. length (dict_get (title video) []) > 60, - 5),
     (\<lambda>video rate. length (dict_get (title video) []) < 30, - 5),
     (\<lambda>video rate. dict_get (views video) 0 > 100000, 10),
     (\<lambda>video rate. dict_get (views video) 0 > 10000 \<and> \<not> dict_get (views video) 0 > 100000, 5),
     (\<lambda>video rate. dict_get (views video) 0 < 1000, - 10)]"

definition matched_adjustments :: "video_data \<Rightarrow> real \<Rightarrow> int list" where
  "matched_adjustments video rate = map snd (filter (\<lambda>rule. fst rule video rate) rule_table)"

definition spec_score :: "video_data \<Rightarrow> real \<Rightarrow> int" where
  "spec_score video rate = max 0 (min 100 (50 + sum_list (matched_adjustments video rate)))"

text \<open>The engagement formula as the data model of the specification writes it.\<close>

definition spec_engagement_rate :: "video_data \<Rightarrow> real" where
  "spec_engagement_rate video =
     real_of_int (dict_get (likes video) 0 + dict_get (comments video) 0)
       / real_of_int (max (dict_get (views video) 0) 1)"

text \<open>
  The worked example of the specification: 600 seconds, 50000 views, 1000 likes and 200
  comments; the title is whatever the fetched record carries.
\<close>

definition example_video :: "pystr option \<Rightarrow> video_data" where
  "example_video t =
     \<lparr>duration_s = Some 600, views = Some 50000, likes = Some 1000, comments = Some 200,
      title = t\<rparr>"

text \<open>The default title of \<open>fetch_video_by_url\<close> (src/yt\_fetch.py, line 90).\<close>

definition unknown_title :: pystr where
  "unknown_title = map of_char ''Unknown Title''"

text \<open>A title of 40 characters, inside the window that the title rule leaves alone.\<close>

definition sample_title :: pystr where
  "sample_title = replicate 40 97"

section \<open>Data frames and the batch ranker (src/analytics.py)\<close>

text \<open>
  A pandas \<open>DataFrame\<close> is a table: the column labels in their order and the rows. A
  row gives each column its cell, and \<open>None\<close> is a missing cell (pandas' NaN); a label
  outside \<open>columns\<close> reads as \<open>None\<close> too. The frames of the batch ranker are taken
  with their numeric columns.
\<close>

datatype py_error = KeyError string | TypeError | ValueError

type_synonym 'c row = "string \<Rightarrow> 'c option"

record 'c dataframe =
  columns :: "string list"
  rows :: "'c row list"

text \<open>
  \<open>df[c] = series\<close>, with the series computed row by row: an existing column is
  overwritten in place, a new one is added as the last column.
\<close>

definition assign :: "string \<Rightarrow> ('c row \<Rightarrow> 'c option) \<Rightarrow> 'c dataframe \<Rightarrow> 'c dataframe" where
  "assign c f df =
     \<lparr>columns = (if c \<in> set (columns df) then columns df else columns df @ [c]),
      rows = map (\<lambda>r. r(c := f r)) (rows df)\<rparr>"

text \<open>
  A numeric column of pandas has one dtype, and the arithmetic follows it. An \<open>int64\<close>
  column holds integers of 64 bits, and its differences and products wrap around modulo
  \<open>2^64\<close>; a \<open>float64\<close> column holds floats or missing cells. A cell carries the dtype of
  its column: \<open>I64\<close> with an integer between \<open>-2^63\<close> and \<open>2^63 - 1\<close>, or \<open>F64\<close> with a
  number. Floats are taken exactly: their rounding is left out.
\<close>

datatype num = I64 int | F64 real

fun num_real :: "num \<Rightarrow> real" where
  "num_real (I64 i) = real_of_int i"
| "num_real (F64 x) = x"

definition wrap64 :: "int \<Rightarrow> int" where
  "wrap64 n = (n + 9223372036854775808) mod 18446744073709551616 - 9223372036854775808"

text \<open>
  Element-wise arithmetic of pandas: two \<open>int64\<close> operands give an \<open>int64\<close> result that
  wraps, any other pair of numbers is computed in floats, and a missing operand gives a
  missing result. The true division \<open>/\<close> always gives a float; a division by zero
  cannot come up in \<open>compute_potential\<close>, whose divisor is clipped to at least 1, and the
  model gives it no value. \<open>clip(lower=lo)\<close> keeps the dtype and leaves a missing cell
  missing. \<open>pd.to_numeric\<close> with \<open>errors="coerce"\<close> keeps a number and a missing cell as
  they are.
\<close>

definition to_numeric :: "num option \<Rightarrow> num option" where
  "to_numeric x = x"

fun num_sub :: "num \<Rightarrow> num \<Rightarrow> num" where
  "num_sub (I64 x) (I64 y) = I64 (wrap64 (x - y))"
| "num_sub u v = F64 (num_real u - num_real v)"

fun num_mul :: "num \<Rightarrow> num \<Rightarrow> num" where
  "num_mul (I64 x) (I64 y) = I64 (wrap64 (x * y))"
| "num_mul u v = F64 (num_real u * num_real v)"

fun num_clip_lower :: "int \<Rightarrow> num \<Rightarrow> num" where
  "num_clip_lower lo (I64 x) = I64 (max lo x)"
| "num_clip_lower lo (F64 x) = F64 (max (real_of_int lo) x)"

definition cell_sub :: "num option \<Rightarrow> num option \<Rightarrow> num option" where
  "cell_sub a b = (case (a, b) of (Some u, Some v) \<Rightarrow> Some (num_sub u v) | _ \<Rightarrow> None)"

definition cell_mul :: "num option \<Rightarrow> num option \<Rightarrow> num option" where
  "cell_mul a b = (case (a, b) of (Some u, Some v) \<Rightarrow> Some (num_mul u v) | _ \<Rightarrow> None)"

definition cell_div :: "num option \<Rightarrow> num option \<Rightarrow> num option" where
  "cell_div a b =
     (case (a, b) of
        (Some u, Some v) \<Rightarrow>
          (if num_real v = 0 then None else Some (F64 (num_real u / num_real v)))
      | _ \<Rightarrow> None)"

definition clip_lower :: "int \<Rightarrow> num option \<Rightarrow> num option" where
  "clip_lower lo a = (case a of None \<Rightarrow> None | Some u \<Rightarrow> Some (num_clip_lower lo u))"

text \<open>
  \<open>df.sort_values(c, ascending=False)\<close> is pandas' own code. The source calls it with
  the default \<open>kind\<close> and no second key, so the model takes the row order it
  computes as a parameter: a function from the key of a row and the rows to the rows
  in their new order.
\<close>

type_synonym sorter = "(num row \<Rightarrow> num option) \<Rightarrow> num row list \<Rightarrow> num row list"

definition sort_values_desc :: "sorter \<Rightarrow> string \<Rightarrow> num dataframe \<Rightarrow> num dataframe" where
  "sort_values_desc srt c df = df\<lparr>rows := srt (\<lambda>r. r c) (rows df)\<rparr>"

text \<open>
  \<open>compute_potential(df)\<close>, lines 7 to 25. The function works on a copy of its
  argument, so the model returns a new frame. Reading a column that the frame does not
  have raises \<open>KeyError\<close>; the reads are checked in the order in which the source
  makes them.
\<close>

definition compute_potential :: "sorter \<Rightarrow> num dataframe \<Rightarrow> py_error + num dataframe" where
  "compute_potential srt df =
     (if ''avgViewDuration'' \<in> set (columns df) then
        (if ''duration_s'' \<notin> set (columns df) then Inl (KeyError ''duration_s'')
         else if ''views'' \<notin> set (columns df) then Inl (KeyError ''views'')
         else
           (let df = assign ''avgViewDuration'' (\<lambda>r. to_numeric (r ''avgViewDuration'')) df;
                df = assign ''duration_s'' (\<lambda>r. to_numeric (r ''duration_s'')) df;
                df = assign ''potential_seconds_per_view''
                       (\<lambda>r. clip_lower 0 (cell_sub (r ''duration_s'') (r ''avgViewDuration'')))
                       df;
                df = assign ''potential_watch_seconds''
                       (\<lambda>r. cell_mul (r ''views'') (r ''potential_seconds_per_view'')) df;
                df = sort_values_desc srt ''potential_watch_seconds'' df
            in Inr df))
      else
        (if ''views'' \<notin> set (columns df) then Inl (KeyError ''views'')
         else if ''duration_s'' \<notin> set (columns df) then Inl (KeyError ''duration_s'')
         else
           (let df = assign ''potential_score''
                       (\<lambda>r. cell_div (r ''views'') (clip_lower 1 (r ''duration_s''))) df;
                df = sort_values_desc srt ''potential_score'' df
            in Inr df)))"

text \<open>The values of one column of a returned frame, from the first row to the last.\<close>

definition column_values :: "string \<Rightarrow> py_error + 'c dataframe \<Rightarrow> py_error + 'c option list" where
  "column_values c result =
     (case result of Inl e \<Rightarrow> Inl e | Inr out \<Rightarrow> Inr (map (\<lambda>r. r c) (rows out)))"

text \<open>
  What \<open>sort_values\<close> promises for a descending sort, whatever its algorithm: the rows
  are rearranged, never lost or invented, keys do not increase along the result, and
  rows with a missing key come last.
\<close>

fun precedes :: "num option \<Rightarrow> num option \<Rightarrow> bool" where
  "precedes _ None = True"
| "precedes None (Some v) = False"
| "precedes (Some u) (Some v) = (num_real v \<le> num_real u)"

definition sorts_descending :: "sorter \<Rightarrow> bool" where
  "sorts_descending srt =
     (\<forall>key xs. mset (srt key xs) = mset xs \<and>
        sorted_wrt (\<lambda>a b. precedes (key a) (key b)) (srt key xs))"

text \<open>
  One sorter that keeps this promise, used to run the ranker on concrete frames: each row
  is placed in front of the first row that it may precede.
\<close>

fun place_desc :: "('a \<Rightarrow> num option) \<Rightarrow> 'a \<Rightarrow> 'a list \<Rightarrow> 'a list" where
  "place_desc key x [] = [x]"
| "place_desc key x (y # ys) =
     (if precedes (key x) (key y) then x # y # ys else y # place_desc key x ys)"

fun order_desc :: "('a \<Rightarrow> num option) \<Rightarrow> 'a list \<Rightarrow> 'a list" where
  "order_desc key [] = []"
| "order_desc key (x # xs) = place_desc key x (order_desc key xs)"

text \<open>
  The two ranking formulas as the specification writes them, on one row and in exact
  arithmetic: \<open>max(duration - avg_view_duration, 0)\<close>, \<open>views\<close> times that, and
  \<open>views / max(duration, 1)\<close>. The exact number is stored as an integer when both
  operands are integers, and as a float otherwise; the quotient is a float.
\<close>

fun stored_like :: "num \<Rightarrow> num \<Rightarrow> real \<Rightarrow> num" where
  "stored_like (I64 x) (I64 y) z = I64 \<lfloor>z\<rfloor>"
| "stored_like u v z = F64 z"

definition spec_seconds_per_view :: "num row \<Rightarrow> num option" where
  "spec_seconds_per_view r =
     (case (r ''duration_s'', r ''avgViewDuration'') of
        (Some duration, Some avg_view_duration) \<Rightarrow>
          Some (stored_like duration avg_view_duration
                  (max (num_real duration - num_real avg_view_duration) 0))
      | _ \<Rightarrow> None)"

definition spec_watch_seconds :: "num row \<Rightarrow> num option" where
  "spec_watch_seconds r =
     (case (r ''views'', spec_seconds_per_view r) of
        (Some v, Some p) \<Rightarrow> Some (stored_like v p (num_real v * num_real p))
      | _ \<Rightarrow> None)"

definition spec_potential_score :: "num row \<Rightarrow> num option" where
  "spec_potential_score r =
     (case (r ''views'', r ''duration_s'') of
        (Some v, Some duration) \<Rightarrow> Some (F64 (num_real v / max (num_real duration) 1))
      | _ \<Rightarrow> None)"

text \<open>
  A row stays within 64 bits when, on its integer cells, the difference of the duration
  and the average view duration and the product of the views and the seconds per view
  are integers of 64 bits. Cells that are floats or missing set no bound.
\<close>

definition fits_int64 :: "int \<Rightarrow> bool" where
  "fits_int64 n = (- 9223372036854775808 \<le> n \<and> n < 9223372036854775808)"

fun sub_fits :: "num \<Rightarrow> num \<Rightarrow> bool" where
  "sub_fits (I64 x) (I64 y) = fits_int64 (x - y)"
| "sub_fits u v = True"

fun mul_fits :: "num \<Rightarrow> num \<Rightarrow> bool" where
  "mul_fits (I64 x) (I64 y) = fits_int64 (x * y)"
| "mul_fits u v = True"

definition within_int64 :: "num row \<Rightarrow> bool" where
  "within_int64 r =
     ((case (r ''duration_s'', r ''avgViewDuration'') of
         (Some duration, Some avg_view_duration) \<Rightarrow> sub_fits duration avg_view_duration
       | _ \<Rightarrow> True) \<and>
      (case (r ''views'', spec_seconds_per_view r) of
         (Some v, Some p) \<Rightarrow> mul_fits v p
       | _ \<Rightarrow> True))"

text \<open>
  The two batches of the specification's examples, with integer columns: average view
  durations 40 and 80, durations 120 and 100, views 1000 and 2000; and, with no average
  view duration, durations 60 and 300, views 600 and 300.
\<close>

definition retention_row_1 :: "num row" where
  "retention_row_1 =
     [''views'' \<mapsto> I64 1000, ''duration_s'' \<mapsto> I64 120, ''avgViewDuration'' \<mapsto> I64 40]"

definition retention_row_2 :: "num row" where
  "retention_row_2 =
     [''views'' \<mapsto> I64 2000, ''duration_s'' \<mapsto> I64 100, ''avgViewDuration'' \<mapsto> I64 80]"

definition retention_batch :: "num dataframe" where
  "retention_batch =
     \<lparr>columns = [''views'', ''duration_s'', ''avgViewDuration''],
      rows = [retention_row_1, retention_row_2]\<rparr>"

definition fallback_row_1 :: "num row" where
  "fallback_row_1 = [''views'' \<mapsto> I64 600, ''duration_s'' \<mapsto> I64 60]"

definition fallback_row_2 :: "num row" where
  "fallback_row_2 = [''views'' \<mapsto> I64 300, ''duration_s'' \<mapsto> I64 300]"

definition fallback_batch :: "num dataframe" where
  "fallback_batch =
     \<lparr>columns = [''views'', ''duration_s''], rows = [fallback_row_1, fallback_row_2]\<rparr>"

text \<open>
  A batch whose first record has \<open>2^62\<close> views, a duration of 10 seconds and an average
  view duration of 0, followed by the first record of the example above. All its cells
  are integers of 64 bits; the product \<open>2^62 * 10\<close> is not.
\<close>

definition overflow_row :: "num row" where
  "overflow_row =
     [''views'' \<mapsto> I64 4611686018427387904, ''duration_s'' \<mapsto> I64 10,
      ''avgViewDuration'' \<mapsto> I64 0]"

definition overflow_batch :: "num dataframe" where
  "overflow_batch =
     \<lparr>columns = [''views'', ''duration_s'', ''avgViewDuration''],
      rows = [overflow_row, retention_row_1]\<rparr>"

text \<open>
  A second sorter that keeps the same promise: it reads the rows from the last to the
  first, so rows with equal keys come out in the opposite order. And a batch of two
  records with the same fallback score, 100 / 10 and 200 / 20.
\<close>

definition order_desc_rev :: "('a \<Rightarrow> num option) \<Rightarrow> 'a list \<Rightarrow> 'a list" where
  "order_desc_rev key xs = order_desc key (rev xs)"

definition tie_batch :: "num dataframe" where
  "tie_batch =
     \<lparr>columns = [''views'', ''duration_s''],
      rows = [[''views'' \<mapsto> I64 100, ''duration_s'' \<mapsto> I64 10],
              [''views'' \<mapsto> I64 200, ''duration_s'' \<mapsto> I64 20]]\<rparr>"

section \<open>The duration codec (src/yt\_fetch.py)\<close>






section \<open>Clustering (src/recommender.py)\<close>

text \<open>
  The frames given to \<open>cluster_videos\<close> hold texts, numbers and, after the call, the
  integer cluster labels.
\<close>

datatype pyval = PyStr pystr | PyFloat real | PyInt int

text \<open>
  Python passes a frame by reference, and \<open>cluster_videos\<close> writes to the frame it is
  given. The store maps the address of every live frame to its content; a function that
  works on a frame takes the store and an address, and returns the address of its result
  with the store it leaves behind.
\<close>

type_synonym store = "nat \<Rightarrow> pyval dataframe option"

text \<open>
  Line 13 builds one text per row: the title with a missing cell replaced by the empty
  text, a blank, and the description; \<open>df.get\<close> supplies empty descriptions when the
  frame has no such column. Rows are taken by position. A missing description makes the
  whole text missing, and a cell that is not a text cannot be concatenated.
\<close>

definition row_text :: "bool \<Rightarrow> pyval row \<Rightarrow> py_error + pystr option" where
  "row_text has_description r =
     (case (case r ''title'' of None \<Rightarrow> Some (PyStr []) | Some v \<Rightarrow> Some v) of
        Some (PyStr title_text) \<Rightarrow>
          (case (if has_description then r ''description'' else Some (PyStr [])) of
             None \<Rightarrow> Inr None
           | Some (PyStr description_text) \<Rightarrow> Inr (Some ((title_text @ [32]) @ description_text))
           | Some _ \<Rightarrow> Inl TypeError)
      | _ \<Rightarrow> Inl TypeError)"

fun collect :: "('e + 'a) list \<Rightarrow> 'e + 'a list" where
  "collect [] = Inr []"
| "collect (Inl e # rest) = Inl e"
| "collect (Inr x # rest) = (case collect rest of Inl e \<Rightarrow> Inl e | Inr xs \<Rightarrow> Inr (x # xs))"

definition texts_of :: "pyval dataframe \<Rightarrow> py_error + pystr option list" where
  "texts_of df = collect (map (row_text (''description'' \<in> set (columns df))) (rows df))"

text \<open>\<open>df[c] = values\<close> with one value per row; the lengths must agree.\<close>

definition set_column :: "string \<Rightarrow> 'c list \<Rightarrow> 'c dataframe \<Rightarrow> py_error + 'c dataframe" where
  "set_column c vals df =
     (if length vals \<noteq> length (rows df) then Inl ValueError
      else Inr \<lparr>columns = (if c \<in> set (columns df) then columns df else columns df @ [c]),
                rows = map (\<lambda>(r, v). r(c \<mapsto> v)) (zip (rows df) vals)\<rparr>)"

text \<open>
  \<open>cluster_videos(df, n_clusters=8)\<close>, lines 12 to 19. The sentence embedding and the
  agglomerative clustering are library code: \<open>fit\<close> stands for both, from the
  number of clusters and the texts to the labels, or to the exception they raise. The
  frame is read at the address \<open>df\<close>, the label column is written at that same
  address, and that address is returned. An address with no frame behind it is Python's
  \<open>None\<close>, which cannot be subscripted.
\<close>

definition cluster_videos ::
    "(int \<Rightarrow> pystr option list \<Rightarrow> py_error + int list) \<Rightarrow> store \<Rightarrow> nat \<Rightarrow> int
       \<Rightarrow> py_error + (nat \<times> store)" where
  "cluster_videos fit heap df n_clusters =
     (case heap df of
        None \<Rightarrow> Inl TypeError
      | Some frame \<Rightarrow>
          if ''title'' \<notin> set (columns frame) then Inl (KeyError ''title'')
          else
            (case texts_of frame of
               Inl e \<Rightarrow> Inl e
             | Inr texts \<Rightarrow>
                 (let n_clusters = min n_clusters (int (length (rows frame))) in
                  case fit n_clusters texts of
                    Inl e \<Rightarrow> Inl e
                  | Inr labels \<Rightarrow>
                      (case set_column ''cluster'' (map PyInt labels) frame of
                         Inl e \<Rightarrow> Inl e
                       | Inr frame' \<Rightarrow> Inr (df, heap(df \<mapsto> frame'))))))"

text \<open>
  A store with one frame of three videos at address 0, the texts of its rows, the frame
  with the labels 0, 1 and 2 in a \<open>cluster\<close> column, and a labelling that puts every
  text into a cluster of its own when it is asked for as many clusters as texts.
\<close>

definition three_videos :: "pyval dataframe" where
  "three_videos =
     \<lparr>columns = [''title'', ''views''],
      rows = [[''title'' \<mapsto> PyStr (map of_char ''cats''), ''views'' \<mapsto> PyFloat 10],
              [''title'' \<mapsto> PyStr (map of_char ''dogs''), ''views'' \<mapsto> PyFloat 20],
              [''title'' \<mapsto> PyStr (map of_char ''fish''), ''views'' \<mapsto> PyFloat 30]]\<rparr>"

definition three_texts :: "pystr option list" where
  "three_texts =
     [Some (map of_char ''cats ''), Some (map of_char ''dogs ''), Some (map of_char ''fish '')]"

definition clustered_videos :: "pyval dataframe" where
  "clustered_videos =
     \<lparr>columns = [''title'', ''views'', ''cluster''],
      rows = [[''title'' \<mapsto> PyStr (map of_char ''cats''), ''views'' \<mapsto> PyFloat 10,
               ''cluster'' \<mapsto> PyInt 0],
              [''title'' \<mapsto> PyStr (map of_char ''dogs''), ''views'' \<mapsto> PyFloat 20,
               ''cluster'' \<mapsto> PyInt 1],
              [''title'' \<mapsto> PyStr (map of_char ''fish''), ''views'' \<mapsto> PyFloat 30,
               ''cluster'' \<mapsto> PyInt 2]]\<rparr>"

definition sample_store :: store where
  "sample_store = [0 \<mapsto> three_videos]"

definition sample_fit :: "int \<Rightarrow> pystr option list \<Rightarrow> py_error + int list" where
  "sample_fit n texts =
     (if n = int (length texts) \<and> 0 < n then Inr (map int [0..<length texts])
      else Inl ValueError)"

section \<open>Properties\<close>

lemma length_sample_title: "length sample_title = 40"
  by (simp add: sample_title_def)

lemma length_unknown_title: "length unknown_title = 13"
  by (simp add: unknown_title_def)

subsection \<open>Range of the score\<close>

text \<open>
  Claim C1. For every video record and every engagement rate, also with a negative
  duration, zero or huge view counts and any title, the score returned by
  \<open>calculate_optimization_score\<close> is an integer between 0 and 100.
\<close>

theorem score_in_0_100:
  "0 \<le> calculate_optimization_score video engagement_rate \<and>
   calculate_optimization_score video engagement_rate \<le> 100"
  by (simp add: calculate_optimization_score_def Let_def)

subsection \<open>Each step adds an adjustment that depends on its own field\<close>

lemma duration_step_adj:
  "duration_step d s =
     s + ((if d < 120 then - 10 else 0) + ((if 480 \<le> d \<and> d \<le> 900 then 10 else 0)
       + (if d > 1800 then - 15 else 0)))"
  by (simp add: duration_step_def)

lemma engagement_step_adj:
  "engagement_step r s =
     s + ((if r > 0.05 then 15 else 0) + ((if r > 0.02 \<and> \<not> r > 0.05 then 5 else 0)
       + (if r < 0.005 then - 20 else 0)))"
  by (simp add: engagement_step_def)

lemma title_step_adj:
  "title_step t s =
     s + ((if length t > 60 then - 5 else 0) + (if length t < 30 then - 5 else 0))"
  by (simp add: title_step_def)

lemma views_step_adj:
  "views_step v s =
     s + ((if v > 100000 then 10 else 0) + ((if v > 10000 \<and> \<not> v > 100000 then 5 else 0)
       + (if v < 1000 then - 10 else 0)))"
  by (simp add: views_step_def)

lemma sum_list_filter_if:
  "sum_list (map snd (filter P rs)) = sum_list (map (\<lambda>r. if P r then snd r else (0::int)) rs)"
  by (induction rs) simp_all

lemma sum_matched_adjustments:
  "sum_list (matched_adjustments video rate) =
     (if dict_get (duration_s video) 0 < 120 then - 10 else 0) +
     ((if 480 \<le> dict_get (duration_s video) 0 \<and> dict_get (duration_s video) 0 \<le> 900
         then 10 else 0) +
     ((if dict_get (duration_s video) 0 > 1800 then - 15 else 0) +
     ((if rate > 0.05 then 15 else 0) +
     ((if rate > 0.02 \<and> \<not> rate > 0.05 then 5 else 0) +
     ((if rate < 0.005 then - 20 else 0) +
     ((if length (dict_get (title video) []) > 60 then - 5 else 0) +
     ((if length (dict_get (title video) []) < 30 then - 5 else 0) +
     ((if dict_get (views video) 0 > 100000 then 10 else 0) +
     ((if dict_get (views video) 0 > 10000 \<and> \<not> dict_get (views video) 0 > 100000
         then 5 else 0) +
     ((if dict_get (views video) 0 < 1000 then - 10 else 0) + 0))))))))))"
  unfolding matched_adjustments_def rule_table_def sum_list_filter_if
  by (simp only: list.map sum_list.Cons sum_list.Nil fst_conv snd_conv)

text \<open>
  Claim C2. For every input the score of the source equals the clamp to [0, 100] of 50
  plus the sum of all matched adjustments of the rule table, the four factor groups each
  looking at their own field only.
\<close>

theorem score_is_rule_table_sum:
  "calculate_optimization_score video rate = spec_score video rate"
  unfolding calculate_optimization_score_def spec_score_def Let_def sum_matched_adjustments
    duration_step_adj engagement_step_adj title_step_adj views_step_adj
  by (simp only: add.assoc add_0_right)

subsection \<open>The score never exceeds 85\<close>

lemma duration_step_le: "duration_step d s \<le> s + 10"
  and duration_step_ge: "s - 15 \<le> duration_step d s"
  by (simp_all add: duration_step_def)

lemma engagement_step_le: "engagement_step r s \<le> s + 15"
  and engagement_step_ge: "s - 20 \<le> engagement_step r s"
  by (simp_all add: engagement_step_def)

lemma title_step_le: "title_step t s \<le> s"
  and title_step_ge: "s - 5 \<le> title_step t s"
  by (simp_all add: title_step_def)

lemma views_step_le: "views_step v s \<le> s + 10"
  and views_step_ge: "s - 10 \<le> views_step v s"
  by (simp_all add: views_step_def)

lemma unclamped_bounds:
  "0 \<le> views_step v (title_step t (engagement_step r (duration_step d 50)))"
  "views_step v (title_step t (engagement_step r (duration_step d 50))) \<le> 85"
  using duration_step_le[of d 50] duration_step_ge[of 50 d]
    engagement_step_le[of r "duration_step d 50"]
    engagement_step_ge[of "duration_step d 50" r]
    title_step_le[of t "engagement_step r (duration_step d 50)"]
    title_step_ge[of "engagement_step r (duration_step d 50)" t]
    views_step_le[of v "title_step t (engagement_step r (duration_step d 50))"]
    views_step_ge[of "title_step t (engagement_step r (duration_step d 50))" v]
  by linarith+

lemma score_unclamped:
  "calculate_optimization_score video rate =
     views_step (dict_get (views video) 0)
       (title_step (dict_get (title video) [])
         (engagement_step rate (duration_step (dict_get (duration_s video) 0) 50)))"
proof -
  let ?raw = "views_step (dict_get (views video) 0)
       (title_step (dict_get (title video) [])
         (engagement_step rate (duration_step (dict_get (duration_s video) 0) 50)))"
  have raw: "0 \<le> ?raw" "?raw \<le> 85"
    by (rule unclamped_bounds)+
  have "calculate_optimization_score video rate = max 0 (min 100 ?raw)"
    by (simp only: calculate_optimization_score_def Let_def)
  also have "\<dots> = ?raw"
    using raw by linarith
  finally show ?thesis .
qed

lemma score_85_reached:
  "calculate_optimization_score
     \<lparr>duration_s = Some 600, views = Some 200000, likes = None, comments = None,
      title = Some sample_title\<rparr> 0.06 = 85"
  unfolding score_unclamped
  by (simp add: dict_get_def duration_step_def engagement_step_def title_step_def
      views_step_def length_sample_title)

lemma score_0_reached:
  "calculate_optimization_score
     \<lparr>duration_s = Some 2000, views = Some 0, likes = None, comments = None,
      title = None\<rparr> 0 = 0"
  unfolding score_unclamped
  by (simp add: dict_get_def duration_step_def engagement_step_def title_step_def
      views_step_def)

text \<open>
  Claim C9. For every input the score is at most 85: the positive adjustments are at most
  10 for the duration, 15 for the engagement and 10 for the views on the base 50. The
  running score before the clamp already lies in [0, 85], so the clamp changes nothing.
  Both ends of the range are reached (\<open>score_85_reached\<close>, \<open>score_0_reached\<close>).
\<close>

theorem score_at_most_85:
  "calculate_optimization_score video rate \<le> 85 \<and>
   0 \<le> calculate_optimization_score video rate \<and>
   calculate_optimization_score video rate =
     views_step (dict_get (views video) 0)
       (title_step (dict_get (title video) [])
         (engagement_step rate (duration_step (dict_get (duration_s video) 0) 50)))"
proof -
  have le: "calculate_optimization_score video rate \<le> 85"
    unfolding score_unclamped by (rule unclamped_bounds)
  have ge: "0 \<le> calculate_optimization_score video rate"
    unfolding score_unclamped by (rule unclamped_bounds)
  show ?thesis
    by (rule conjI [OF le conjI [OF ge score_unclamped]])
qed

subsection \<open>The derived engagement rate\<close>

text \<open>
  Claim C3, as stated: the derived rate equals (likes + comments) / max(views, 1) for
  every record, so that it is likes + comments when views is 0. The source guards the
  division with \<open>if views > 0 else 0\<close>: with no views, 3 likes and 2 comments the rate is 0,
  not 5.
\<close>

theorem engagement_rate_zero_views_counterexample:
  "engagement_rate_of
     \<lparr>duration_s = Some 600, views = Some 0, likes = Some 3, comments = Some 2,
      title = None\<rparr> = 0 \<and>
   spec_engagement_rate
     \<lparr>duration_s = Some 600, views = Some 0, likes = Some 3, comments = Some 2,
      title = None\<rparr> = 5 \<and>
   engagement_rate_of
     \<lparr>duration_s = Some 600, views = Some 0, likes = Some 3, comments = Some 2,
      title = None\<rparr> \<noteq>
   spec_engagement_rate
     \<lparr>duration_s = Some 600, views = Some 0, likes = Some 3, comments = Some 2,
      title = None\<rparr>"
  by (simp add: engagement_rate_of_def spec_engagement_rate_def dict_get_def)

text \<open>
  Claim C3, amended. When views is positive the derived rate equals
  (likes + comments) / max(views, 1), which is (likes + comments) / views; when views is
  zero or negative it is 0, whatever likes and comments are.
\<close>

theorem engagement_rate_guarded:
  "(0 < dict_get (views video) 0 \<longrightarrow>
      engagement_rate_of video = spec_engagement_rate video \<and>
      engagement_rate_of video =
        real_of_int (dict_get (likes video) 0 + dict_get (comments video) 0)
          / real_of_int (dict_get (views video) 0)) \<and>
   (dict_get (views video) 0 \<le> 0 \<longrightarrow> engagement_rate_of video = 0)"
  by (simp add: engagement_rate_of_def spec_engagement_rate_def Let_def max_def)

theorem engagement_rate_guarded_witness:
  "engagement_rate_of (example_video None) = spec_engagement_rate (example_video None) \<and>
   engagement_rate_of (example_video None) = 1200 / 50000 \<and>
   engagement_rate_of
     \<lparr>duration_s = None, views = Some 0, likes = Some 3, comments = Some 2, title = None\<rparr> = 0"
  using engagement_rate_guarded [of "example_video None"]
    engagement_rate_guarded
      [of "\<lparr>duration_s = None, views = Some 0, likes = Some 3, comments = Some 2,
            title = None\<rparr>"]
  by (simp add: example_video_def dict_get_def)

subsection \<open>The worked example\<close>

lemma example_video_fields:
  "dict_get (duration_s (example_video t)) 0 = 600"
  "dict_get (views (example_video t)) 0 = 50000"
  "dict_get (likes (example_video t)) 0 = 1000"
  "dict_get (comments (example_video t)) 0 = 200"
  "dict_get (title (example_video (Some x))) [] = x"
  "dict_get (title (example_video None)) [] = []"
  by (simp_all add: example_video_def dict_get_def)

lemma example_rate: "engagement_rate_of (example_video t) = 0.024"
  unfolding engagement_rate_of_def Let_def example_video_fields by simp

lemma example_score:
  "analyzed_score (example_video t) = title_step (dict_get (title (example_video t)) []) 65 + 5"
  unfolding analyzed_score_def score_unclamped example_video_fields example_rate
  by (simp add: duration_step_def engagement_step_def views_step_def)

text \<open>
  Claim C7, as stated: for 600 seconds, 50000 views, 1000 likes and 200 comments the
  score is 70 whatever else the fetched record holds. The title rule also applies: with
  the fetch layer's default title of 13 characters the score is 65.
\<close>

theorem example_score_counterexample:
  "analyzed_score (example_video (Some unknown_title)) = 65 \<and>
   analyzed_score (example_video (Some unknown_title)) \<noteq> 70"
  unfolding example_score example_video_fields
  by (simp add: title_step_def length_unknown_title)

text \<open>
  Claim C7, amended. For 600 seconds, 50000 views, 1000 likes, 200 comments and a title
  of 30 to 60 characters, the derived engagement rate is 0.024 and the score is 70
  (base 50, +10 duration, +5 engagement, +5 views, no title adjustment).
\<close>

theorem example_score_70:
  "30 \<le> length t \<Longrightarrow> length t \<le> 60 \<Longrightarrow>
   engagement_rate_of (example_video (Some t)) = 0.024 \<and>
   analyzed_score (example_video (Some t)) = 70"
  unfolding example_score example_rate example_video_fields
  by (simp add: title_step_def)

theorem example_score_70_witness:
  "engagement_rate_of (example_video (Some sample_title)) = 0.024 \<and>
   analyzed_score (example_video (Some sample_title)) = 70"
  using example_score_70 [of sample_title] by (simp add: length_sample_title)

text \<open>With a title outside that window, or none, the same record scores 65.\<close>

lemma example_score_65:
  "length t < 30 \<or> 60 < length t \<Longrightarrow> analyzed_score (example_video (Some t)) = 65"
  "analyzed_score (example_video None) = 65"
  unfolding example_score example_video_fields
  by (auto simp add: title_step_def)

subsection \<open>Order of the action items\<close>

lemma action_items_shape:
  "\<exists>middle. generate_action_items video score suggestions =
      (if score < 30 then [High_Priority_Retention, High_Priority_Title]
       else if score < 60 then [Medium_Priority] else [Good_Optimized])
      @ middle @ [Monitor_Retention, AB_Test_Thumbnails] \<and>
     set middle \<subseteq> conditional_items"
proof -
  let ?d = "dict_get (duration_s video) 0"
  let ?e = "real_of_int (dict_get (likes video) 0 + dict_get (comments video) 0)
              / real_of_int (max (dict_get (views video) 1) 1)"
  let ?middle = "(if ?d < 120 then [Test_Longer_Format]
                  else if ?d > 1800 then [Condensed_Version] else [])
                 @ (if ?e < 0.02 then [Interactive_Elements] else [])"
  have "generate_action_items video score suggestions =
      (if score < 30 then [High_Priority_Retention, High_Priority_Title]
       else if score < 60 then [Medium_Priority] else [Good_Optimized])
      @ ?middle @ [Monitor_Retention, AB_Test_Thumbnails]"
    by (simp add: generate_action_items_def Let_def)
  moreover have "set ?middle \<subseteq> conditional_items"
    by (auto simp add: conditional_items_def split: if_splits)
  ultimately show ?thesis
    by blast
qed

text \<open>
  Claim C4. For every video record and every score: below 30 the list begins with the
  two high-priority items in their fixed order; from 30 and below 60 it begins with the
  one medium-priority item; from 60 on it begins with the one good item. Whatever
  follows before the end is made of duration and engagement items only, so the bucket
  items come before all of them and occur nowhere else, and the list always ends with
  the same two trailing items.
\<close>

theorem action_items_bucket_first:
  "(score < 30 \<longrightarrow>
      (\<exists>middle. generate_action_items video score suggestions =
         [High_Priority_Retention, High_Priority_Title] @ middle
           @ [Monitor_Retention, AB_Test_Thumbnails] \<and>
         set middle \<subseteq> conditional_items)) \<and>
   (30 \<le> score \<and> score < 60 \<longrightarrow>
      (\<exists>middle. generate_action_items video score suggestions =
         [Medium_Priority] @ middle @ [Monitor_Retention, AB_Test_Thumbnails] \<and>
         set middle \<subseteq> conditional_items)) \<and>
   (60 \<le> score \<longrightarrow>
      (\<exists>middle. generate_action_items video score suggestions =
         [Good_Optimized] @ middle @ [Monitor_Retention, AB_Test_Thumbnails] \<and>
         set middle \<subseteq> conditional_items))"
  using action_items_shape [of video score suggestions]
  by (cases "score < 30"; cases "score < 60") simp_all

theorem action_items_bucket_first_witness:
  "(\<exists>middle. generate_action_items (example_video None) 25 [] =
      [High_Priority_Retention, High_Priority_Title] @ middle
        @ [Monitor_Retention, AB_Test_Thumbnails] \<and>
      set middle \<subseteq> conditional_items) \<and>
   (\<exists>middle. generate_action_items (example_video None) 45 [] =
      [Medium_Priority] @ middle @ [Monitor_Retention, AB_Test_Thumbnails] \<and>
      set middle \<subseteq> conditional_items) \<and>
   (\<exists>middle. generate_action_items (example_video None) 70 [] =
      [Good_Optimized] @ middle @ [Monitor_Retention, AB_Test_Thumbnails] \<and>
      set middle \<subseteq> conditional_items)"
  using action_items_bucket_first [of 25 "example_video None" "[]"]
    action_items_bucket_first [of 45 "example_video None" "[]"]
    action_items_bucket_first [of 70 "example_video None" "[]"]
  by simp

text \<open>
  The example of the specification: at score 25, on a short video with no engagement,
  the whole list.
\<close>

lemma action_items_score_25:
  "generate_action_items
     \<lparr>duration_s = Some 90, views = Some 500, likes = Some 0, comments = Some 0,
      title = None\<rparr> 25 [] =
   [High_Priority_Retention, High_Priority_Title, Test_Longer_Format,
    Interactive_Elements, Monitor_Retention, AB_Test_Thumbnails]"
  by (simp add: generate_action_items_def Let_def dict_get_def)

subsection \<open>The batch ranker\<close>

lemma wrap64_fits: "fits_int64 n \<Longrightarrow> wrap64 n = n"
  by (simp add: fits_int64_def wrap64_def)

lemma num_sub_fits:
  "sub_fits u v \<Longrightarrow>
   num_clip_lower 0 (num_sub u v) = stored_like u v (max (num_real u - num_real v) 0)"
proof (cases u; cases v)
  fix x y
  assume u: "u = I64 x" and v: "v = I64 y" and "sub_fits u v"
  then have "wrap64 (x - y) = x - y"
    by (simp add: wrap64_fits)
  moreover have "\<lfloor>max (real_of_int x - real_of_int y) 0\<rfloor> = max 0 (x - y)"
  proof -
    have "max (real_of_int x - real_of_int y) 0 = real_of_int (max 0 (x - y))"
      by (simp add: max_def)
    then show ?thesis
      by (simp only: floor_of_int)
  qed
  ultimately show ?thesis
    by (simp add: u v)
qed (simp_all add: max.commute)

lemma num_mul_fits:
  "mul_fits u v \<Longrightarrow> num_mul u v = stored_like u v (num_real u * num_real v)"
proof (cases u; cases v)
  fix x y
  assume u: "u = I64 x" and v: "v = I64 y" and "mul_fits u v"
  then have "wrap64 (x * y) = x * y"
    by (simp add: wrap64_fits)
  moreover have "\<lfloor>real_of_int x * real_of_int y\<rfloor> = x * y"
  proof -
    have "real_of_int x * real_of_int y = real_of_int (x * y)"
      by simp
    then show ?thesis
      by (simp only: floor_of_int)
  qed
  ultimately show ?thesis
    by (simp add: u v)
qed simp_all

lemma num_real_clip_lower: "num_real (num_clip_lower lo u) = max (real_of_int lo) (num_real u)"
  by (cases u) simp_all

lemma gap_cell:
  "within_int64 r \<Longrightarrow>
   clip_lower 0 (cell_sub (r ''duration_s'') (r ''avgViewDuration'')) = spec_seconds_per_view r"
  by (auto simp add: within_int64_def clip_lower_def cell_sub_def spec_seconds_per_view_def
      num_sub_fits split: option.splits)

lemma watch_cell:
  "within_int64 r \<Longrightarrow>
   cell_mul (r ''views'') (spec_seconds_per_view r) = spec_watch_seconds r"
  by (auto simp add: within_int64_def cell_mul_def spec_watch_seconds_def num_mul_fits
      split: option.splits)

lemma score_cell:
  "cell_div (r ''views'') (clip_lower 1 (r ''duration_s'')) = spec_potential_score r"
proof -
  have "max 1 x \<noteq> 0" and "max 1 x = max x 1" for x :: real
    by (simp_all add: max_def)
  then show ?thesis
    by (simp add: cell_div_def clip_lower_def spec_potential_score_def num_real_clip_lower
        split: option.splits)
qed

lemma rows_assign: "rows (assign c f df) = map (\<lambda>r. r(c := f r)) (rows df)"
  by (simp add: assign_def)

lemma columns_assign: "set (columns (assign c f df)) = insert c (set (columns df))"
  by (auto simp add: assign_def)

lemma rows_sort_values_desc: "rows (sort_values_desc srt c df) = srt (\<lambda>r. r c) (rows df)"
  by (simp add: sort_values_desc_def)

lemma columns_sort_values_desc: "columns (sort_values_desc srt c df) = columns df"
  by (simp add: sort_values_desc_def)

lemma retention_row:
  "within_int64 r \<Longrightarrow>
   r(''potential_seconds_per_view'' :=
       clip_lower 0 (cell_sub (r ''duration_s'') (r ''avgViewDuration'')),
     ''potential_watch_seconds'' :=
       cell_mul (r ''views'')
         (clip_lower 0 (cell_sub (r ''duration_s'') (r ''avgViewDuration'')))) =
   r(''potential_seconds_per_view'' := spec_seconds_per_view r,
     ''potential_watch_seconds'' := spec_watch_seconds r)"
  by (simp only: gap_cell watch_cell)

lemma retention_rows:
  assumes "''avgViewDuration'' \<in> set (columns df)"
    and "''duration_s'' \<in> set (columns df)" and "''views'' \<in> set (columns df)"
    and "\<forall>r \<in> set (rows df). within_int64 r"
  shows "\<exists>out. compute_potential srt df = Inr out \<and>
     set (columns out) =
       set (columns df) \<union> {''potential_seconds_per_view'', ''potential_watch_seconds''} \<and>
     rows out = srt (\<lambda>r. r ''potential_watch_seconds'')
       (map (\<lambda>r. r(''potential_seconds_per_view'' := spec_seconds_per_view r,
                    ''potential_watch_seconds'' := spec_watch_seconds r)) (rows df))"
proof -
  have same: "map (\<lambda>r. r(''potential_seconds_per_view'' :=
           clip_lower 0 (cell_sub (r ''duration_s'') (r ''avgViewDuration'')),
         ''potential_watch_seconds'' :=
           cell_mul (r ''views'')
             (clip_lower 0 (cell_sub (r ''duration_s'') (r ''avgViewDuration''))))) (rows df) =
     map (\<lambda>r. r(''potential_seconds_per_view'' := spec_seconds_per_view r,
                  ''potential_watch_seconds'' := spec_watch_seconds r)) (rows df)"
    using assms(4) by (intro map_cong refl retention_row) blast
  show ?thesis
    using assms(1-3)
    by (auto simp add: compute_potential_def Let_def rows_sort_values_desc rows_assign o_def
        columns_sort_values_desc columns_assign to_numeric_def same)
qed

lemma fallback_rows:
  assumes "''avgViewDuration'' \<notin> set (columns df)"
    and "''duration_s'' \<in> set (columns df)" and "''views'' \<in> set (columns df)"
  shows "\<exists>out. compute_potential srt df = Inr out \<and>
     set (columns out) = set (columns df) \<union> {''potential_score''} \<and>
     rows out = srt (\<lambda>r. r ''potential_score'')
       (map (\<lambda>r. r(''potential_score'' := spec_potential_score r)) (rows df))"
  using assms
  by (auto simp add: compute_potential_def Let_def rows_sort_values_desc rows_assign o_def
      columns_sort_values_desc columns_assign score_cell)

text \<open>The insertion sorter keeps the promise of a descending sort.\<close>

lemma precedes_total: "\<not> precedes a b \<Longrightarrow> precedes b a"
  by (cases a; cases b) simp_all

lemma precedes_trans: "precedes a b \<Longrightarrow> precedes b c \<Longrightarrow> precedes a c"
  by (cases a; cases b; cases c) simp_all

lemma mset_place_desc: "mset (place_desc key x ys) = add_mset x (mset ys)"
  by (induction ys) simp_all

lemma set_place_desc: "set (place_desc key x ys) = insert x (set ys)"
  by (induction ys) auto

lemma sorted_place_desc:
  "sorted_wrt (\<lambda>a b. precedes (key a) (key b)) ys \<Longrightarrow>
   sorted_wrt (\<lambda>a b. precedes (key a) (key b)) (place_desc key x ys)"
proof (induction ys)
  case Nil
  then show ?case by simp
next
  case (Cons y ys)
  show ?case
  proof (cases "precedes (key x) (key y)")
    case True
    with Cons.prems show ?thesis
      by (auto intro: precedes_trans)
  next
    case False
    then have "precedes (key y) (key x)"
      by (rule precedes_total)
    with False Cons show ?thesis
      by (auto simp add: set_place_desc)
  qed
qed

lemma mset_order_desc: "mset (order_desc key xs) = mset xs"
  by (induction xs) (simp_all add: mset_place_desc)

lemma sorted_order_desc: "sorted_wrt (\<lambda>a b. precedes (key a) (key b)) (order_desc key xs)"
  by (induction xs) (simp_all add: sorted_place_desc)

lemma sorts_descending_order_desc: "sorts_descending order_desc"
  by (simp add: sorts_descending_def mset_order_desc sorted_order_desc)

text \<open>
  Claim C5, as stated: for every batch, in the retention-gap mode each record gets
  potential_watch_seconds = views times potential_seconds_per_view and the batch is
  sorted descending by it. The columns are integers of 64 bits and their product wraps
  around: for \<open>2^62\<close> views and 10 seconds per view the record gets \<open>-2^63\<close>, not
  \<open>2^62 * 10\<close>, and it is ranked after a record with 80000 watch seconds.
\<close>

theorem compute_potential_overflow_counterexample:
  "column_values ''potential_watch_seconds'' (compute_potential order_desc overflow_batch) =
     Inr [Some (I64 80000), Some (I64 (- 9223372036854775808))] \<and>
   column_values ''views'' (compute_potential order_desc overflow_batch) =
     Inr [Some (I64 1000), Some (I64 4611686018427387904)] \<and>
   map spec_watch_seconds (rows overflow_batch) =
     [Some (I64 46116860184273879040), Some (I64 80000)]"
  by (simp add: column_values_def compute_potential_def overflow_batch_def overflow_row_def
      retention_row_1_def Let_def assign_def sort_values_desc_def to_numeric_def
      clip_lower_def cell_sub_def cell_mul_def wrap64_def spec_watch_seconds_def
      spec_seconds_per_view_def)

text \<open>
  Claim C5, amended. For every batch that has the views and duration columns and whose
  rows stay within 64 bits, and every sorter that does what a descending sort promises,
  \<open>compute_potential\<close> chooses its mode by the presence of the average-view-duration
  column. When it is present each record gets
  potential_seconds_per_view = max(duration - avg_view_duration, 0) and
  potential_watch_seconds = views times that, and the batch comes back sorted
  descending by potential_watch_seconds. When it is absent each record gets
  potential_score = views / max(duration, 1) and the batch comes back sorted descending
  by potential_score.
\<close>

theorem compute_potential_modes:
  assumes "sorts_descending srt"
    and "''views'' \<in> set (columns df)" and "''duration_s'' \<in> set (columns df)"
    and "\<forall>r \<in> set (rows df). within_int64 r"
  shows "\<exists>out. compute_potential srt df = Inr out \<and>
    (if ''avgViewDuration'' \<in> set (columns df)
     then set (columns out) =
            set (columns df) \<union> {''potential_seconds_per_view'', ''potential_watch_seconds''} \<and>
          mset (rows out) =
            mset (map (\<lambda>r. r(''potential_seconds_per_view'' := spec_seconds_per_view r,
                             ''potential_watch_seconds'' := spec_watch_seconds r)) (rows df)) \<and>
          sorted_wrt (\<lambda>a b. precedes (a ''potential_watch_seconds'')
                                      (b ''potential_watch_seconds'')) (rows out)
     else set (columns out) = set (columns df) \<union> {''potential_score''} \<and>
          mset (rows out) =
            mset (map (\<lambda>r. r(''potential_score'' := spec_potential_score r)) (rows df)) \<and>
          sorted_wrt (\<lambda>a b. precedes (a ''potential_score'') (b ''potential_score''))
            (rows out))"
proof (cases "''avgViewDuration'' \<in> set (columns df)")
  case True
  from retention_rows [OF True assms(3) assms(2) assms(4), of srt] obtain out
    where "compute_potential srt df = Inr out"
      and "set (columns out) =
        set (columns df) \<union> {''potential_seconds_per_view'', ''potential_watch_seconds''}"
      and "rows out = srt (\<lambda>r. r ''potential_watch_seconds'')
       (map (\<lambda>r. r(''potential_seconds_per_view'' := spec_seconds_per_view r,
                    ''potential_watch_seconds'' := spec_watch_seconds r)) (rows df))"
    by blast
  with assms(1) True show ?thesis
    by (simp add: sorts_descending_def)
next
  case False
  from fallback_rows [OF False assms(3) assms(2), of srt] obtain out
    where "compute_potential srt df = Inr out"
      and "set (columns out) = set (columns df) \<union> {''potential_score''}"
      and "rows out = srt (\<lambda>r. r ''potential_score'')
       (map (\<lambda>r. r(''potential_score'' := spec_potential_score r)) (rows df))"
    by blast
  with assms(1) False show ?thesis
    by (simp add: sorts_descending_def)
qed

lemma within_int64_retention_batch: "\<forall>r \<in> set (rows retention_batch). within_int64 r"
  by (simp add: retention_batch_def retention_row_1_def retention_row_2_def within_int64_def
      spec_seconds_per_view_def fits_int64_def)

lemma within_int64_fallback_batch: "\<forall>r \<in> set (rows fallback_batch). within_int64 r"
  by (simp add: fallback_batch_def fallback_row_1_def fallback_row_2_def within_int64_def
      spec_seconds_per_view_def)

theorem compute_potential_modes_witness:
  "(\<exists>out. compute_potential order_desc retention_batch = Inr out \<and>
      set (columns out) =
        set (columns retention_batch)
          \<union> {''potential_seconds_per_view'', ''potential_watch_seconds''} \<and>
      mset (rows out) =
        mset (map (\<lambda>r. r(''potential_seconds_per_view'' := spec_seconds_per_view r,
                         ''potential_watch_seconds'' := spec_watch_seconds r))
               (rows retention_batch)) \<and>
      sorted_wrt (\<lambda>a b. precedes (a ''potential_watch_seconds'')
                                  (b ''potential_watch_seconds'')) (rows out)) \<and>
   (\<exists>out. compute_potential order_desc fallback_batch = Inr out \<and>
      set (columns out) = set (columns fallback_batch) \<union> {''potential_score''} \<and>
      mset (rows out) =
        mset (map (\<lambda>r. r(''potential_score'' := spec_potential_score r))
               (rows fallback_batch)) \<and>
      sorted_wrt (\<lambda>a b. precedes (a ''potential_score'') (b ''potential_score''))
        (rows out))"
proof -
  have r: "''views'' \<in> set (columns retention_batch)"
    "''duration_s'' \<in> set (columns retention_batch)"
    "''avgViewDuration'' \<in> set (columns retention_batch)"
    by (simp_all add: retention_batch_def)
  have f: "''views'' \<in> set (columns fallback_batch)"
    "''duration_s'' \<in> set (columns fallback_batch)"
    "''avgViewDuration'' \<notin> set (columns fallback_batch)"
    by (simp_all add: fallback_batch_def)
  show ?thesis
    using compute_potential_modes
        [OF sorts_descending_order_desc r(1) r(2) within_int64_retention_batch]
      compute_potential_modes
        [OF sorts_descending_order_desc f(1) f(2) within_int64_fallback_batch]
    by (simp only: r(3) f(3) if_True if_False simp_thms)
qed

text \<open>
  The two examples of the specification, run with the insertion sorter: watch seconds
  80000 and 40000, the first record first; scores 10 and 1, the first record first.
\<close>

lemma retention_batch_ranked:
  "column_values ''potential_watch_seconds'' (compute_potential order_desc retention_batch) =
     Inr [Some (I64 80000), Some (I64 40000)] \<and>
   column_values ''potential_seconds_per_view'' (compute_potential order_desc retention_batch) =
     Inr [Some (I64 80), Some (I64 20)] \<and>
   column_values ''views'' (compute_potential order_desc retention_batch) =
     Inr [Some (I64 1000), Some (I64 2000)]"
  by (simp add: column_values_def compute_potential_def retention_batch_def
      retention_row_1_def retention_row_2_def Let_def assign_def sort_values_desc_def
      to_numeric_def clip_lower_def cell_sub_def cell_mul_def wrap64_def)

lemma fallback_batch_ranked:
  "column_values ''potential_score'' (compute_potential order_desc fallback_batch) =
     Inr [Some (F64 10), Some (F64 1)] \<and>
   column_values ''views'' (compute_potential order_desc fallback_batch) =
     Inr [Some (I64 600), Some (I64 300)]"
  by (simp add: column_values_def compute_potential_def fallback_batch_def
      fallback_row_1_def fallback_row_2_def Let_def assign_def sort_values_desc_def
      clip_lower_def cell_div_def)

subsection \<open>Rows with equal keys\<close>

text \<open>
  The source gives \<open>sort_values\<close> one key and no \<open>kind\<close>, so the order among rows with
  equal keys is the sorting algorithm's choice. The promise of a descending sort does not
  fix it: both sorters keep the promise, and on the batch with two equal scores one
  returns the records in their input order and the other in the opposite order.
\<close>

lemma sorts_descending_order_desc_rev: "sorts_descending order_desc_rev"
  by (simp add: sorts_descending_def order_desc_rev_def mset_order_desc sorted_order_desc)

lemma tie_batch_input_order:
  "column_values ''potential_score'' (compute_potential order_desc tie_batch) =
     Inr [Some (F64 10), Some (F64 10)] \<and>
   column_values ''views'' (compute_potential order_desc tie_batch) =
     Inr [Some (I64 100), Some (I64 200)]"
  by (simp add: column_values_def compute_potential_def tie_batch_def Let_def assign_def
      sort_values_desc_def clip_lower_def cell_div_def)

lemma tie_batch_opposite_order:
  "column_values ''potential_score'' (compute_potential order_desc_rev tie_batch) =
     Inr [Some (F64 10), Some (F64 10)] \<and>
   column_values ''views'' (compute_potential order_desc_rev tie_batch) =
     Inr [Some (I64 200), Some (I64 100)]"
  by (simp add: column_values_def compute_potential_def tie_batch_def Let_def assign_def
      sort_values_desc_def clip_lower_def cell_div_def order_desc_rev_def)

subsection \<open>The duration parser never raises\<close>






subsection \<open>Clustering writes into the caller's frame\<close>

lemma column_after_update:
  "length rs = length vals \<Longrightarrow>
   map (\<lambda>r. r c) (map (\<lambda>(r, v). r(c \<mapsto> v)) (zip rs vals)) = map Some vals"
  by (induction rs vals rule: list_induct2) simp_all

lemma set_column_result:
  assumes "set_column c vals df = Inr df'"
  shows "c \<in> set (columns df')"
    and "map (\<lambda>r. r c) (rows df') = map Some vals"
    and "length vals = length (rows df)"
    and "c \<notin> set (columns df) \<Longrightarrow> df' \<noteq> df"
proof -
  from assms have len: "length vals = length (rows df)"
    and df': "df' = \<lparr>columns = (if c \<in> set (columns df) then columns df else columns df @ [c]),
                     rows = map (\<lambda>(r, v). r(c \<mapsto> v)) (zip (rows df) vals)\<rparr>"
    by (simp_all add: set_column_def split: if_splits)
  show "length vals = length (rows df)"
    by (rule len)
  show "c \<in> set (columns df')"
    by (simp add: df')
  show "map (\<lambda>r. r c) (rows df') = map Some vals"
    using len by (simp add: df' column_after_update del: map_map)
  show "df' \<noteq> df" if "c \<notin> set (columns df)"
  proof
    assume "df' = df"
    then have "columns df' = columns df"
      by simp
    with that show False
      by (simp add: df')
  qed
qed

text \<open>
  Claim C10. Whenever \<open>cluster_videos\<close> returns, it returns the address it was given; the
  store has the same addresses as before, so no frame was copied or created; every other
  frame is untouched; and the frame at that address, the caller's, now has a
  \<open>cluster\<close> column that holds the computed labels, one per row. If the frame had no
  such column before, the caller's frame differs from what it was.
\<close>

theorem cluster_videos_in_place:
  assumes "cluster_videos fit heap df n_clusters = Inr (result, heap')"
  shows "result = df \<and> dom heap' = dom heap \<and>
    (\<forall>other. other \<noteq> df \<longrightarrow> heap' other = heap other) \<and>
    (\<exists>frame frame' texts labels.
       heap df = Some frame \<and> heap' df = Some frame' \<and>
       texts_of frame = Inr texts \<and>
       fit (min n_clusters (int (length (rows frame)))) texts = Inr labels \<and>
       length labels = length (rows frame) \<and>
       ''cluster'' \<in> set (columns frame') \<and>
       map (\<lambda>r. r ''cluster'') (rows frame') = map (\<lambda>l. Some (PyInt l)) labels \<and>
       (''cluster'' \<notin> set (columns frame) \<longrightarrow> heap' df \<noteq> heap df))"
proof -
  from assms obtain frame where frame: "heap df = Some frame"
    by (auto simp add: cluster_videos_def split: option.splits)
  from assms frame obtain texts where texts: "texts_of frame = Inr texts"
    by (auto simp add: cluster_videos_def split: if_splits sum.splits)
  from assms frame texts obtain labels
    where labels: "fit (min n_clusters (int (length (rows frame)))) texts = Inr labels"
    by (auto simp add: cluster_videos_def Let_def split: if_splits sum.splits)
  from assms frame texts labels obtain frame'
    where frame': "set_column ''cluster'' (map PyInt labels) frame = Inr frame'"
      and result: "result = df" and heap': "heap' = heap(df \<mapsto> frame')"
    by (auto simp add: cluster_videos_def Let_def split: if_splits sum.splits)
  note col = set_column_result [OF frame']
  have "dom heap' = dom heap"
    using frame by (auto simp add: heap')
  moreover have "\<forall>other. other \<noteq> df \<longrightarrow> heap' other = heap other"
    by (simp add: heap')
  moreover have "heap' df = Some frame'"
    by (simp add: heap')
  moreover have "length labels = length (rows frame)"
    using col(3) by simp
  moreover have "map (\<lambda>r. r ''cluster'') (rows frame') = map (\<lambda>l. Some (PyInt l)) labels"
    using col(2) by (simp add: o_def)
  moreover have "''cluster'' \<notin> set (columns frame) \<longrightarrow> heap' df \<noteq> heap df"
    using col(4) frame by (simp add: heap')
  ultimately show ?thesis
    using result frame texts labels col(1) by blast
qed

lemma texts_of_three_videos: "texts_of three_videos = Inr three_texts"
  by (simp add: texts_of_def three_videos_def row_text_def three_texts_def)

lemma sample_fit_three_texts:
  "sample_fit (min 8 (int (length (rows three_videos)))) three_texts = Inr [0, 1, 2]"
  by (simp add: sample_fit_def three_videos_def three_texts_def upt_rec)

lemma set_column_three_videos:
  "set_column ''cluster'' (map PyInt [0, 1, 2]) three_videos = Inr clustered_videos"
  by (simp add: set_column_def three_videos_def clustered_videos_def)

lemma cluster_three_videos:
  "cluster_videos sample_fit sample_store 0 8 =
     Inr (0, sample_store(0 \<mapsto> clustered_videos))"
proof -
  have "sample_store 0 = Some three_videos"
    by (simp add: sample_store_def)
  moreover have "''title'' \<in> set (columns three_videos)"
    by (simp add: three_videos_def)
  ultimately show ?thesis
    unfolding cluster_videos_def
    by (simp add: texts_of_three_videos sample_fit_three_texts set_column_three_videos
        Let_def del: map_map list.map)
qed

theorem cluster_videos_in_place_witness:
  "cluster_videos sample_fit sample_store 0 8 =
     Inr (0, sample_store(0 \<mapsto> clustered_videos)) \<and>
   dom (sample_store(0 \<mapsto> clustered_videos)) = dom sample_store \<and>
   ''cluster'' \<in> set (columns clustered_videos) \<and>
   map (\<lambda>r. r ''cluster'') (rows clustered_videos) =
     [Some (PyInt 0), Some (PyInt 1), Some (PyInt 2)] \<and>
   (sample_store(0 \<mapsto> clustered_videos)) 0 \<noteq> sample_store 0"
proof -
  have before: "sample_store 0 = Some three_videos"
    "''cluster'' \<notin> set (columns three_videos)"
    by (simp_all add: sample_store_def three_videos_def)
  from cluster_videos_in_place [OF cluster_three_videos] before
  have "dom (sample_store(0 \<mapsto> clustered_videos)) = dom sample_store"
    and "(sample_store(0 \<mapsto> clustered_videos)) 0 \<noteq> sample_store 0"
    by auto
  moreover have "''cluster'' \<in> set (columns clustered_videos)"
    and "map (\<lambda>r. r ''cluster'') (rows clustered_videos) =
      [Some (PyInt 0), Some (PyInt 1), Some (PyInt 2)]"
    by (simp_all add: clustered_videos_def)
  ultimately show ?thesis
    using cluster_three_videos by simp
qed

end
